theory Spec2Isabelle
  imports Complex_Main "HOL-Library.Word"
begin

section \<open>Python values, exceptions and dictionaries\<close>

text \<open>
  The backend is Python (FastAPI). Every exception the handlers can raise is a value of
  \<open>py_exn\<close>; a handler returns \<open>py_exn + 'a\<close> with \<open>Inl\<close> the raised exception.
  The handlers build the \<open>detail\<close> of an \<open>HTTPException\<close> from \<open>str(e)\<close> of the
  exception they caught; the text of \<open>str(e)\<close> belongs to the libraries, so it is kept
  symbolic: \<open>StrOf e\<close> is \<open>str(e)\<close> and \<open>FStr p e\<close> is the f-string \<open>p + str(e)\<close>.
\<close>

datatype py_exn =
    KeyError
  | TypeError
  | IndexError
  | AttributeError
  | ValueError
  | ValidationError
  | RpcError string
  | HTTPException int detail
and detail =
    Text string
  | StrOf py_exn
  | FStr string py_exn

text \<open>Sequencing of calls that may raise: the first exception wins.\<close>

definition bind_exn :: "py_exn + 'a \<Rightarrow> ('a \<Rightarrow> py_exn + 'b) \<Rightarrow> py_exn + 'b" where
  "bind_exn m f = (case m of Inl e \<Rightarrow> Inl e | Inr x \<Rightarrow> f x)"

text \<open>
  \<^verbatim>\<open>except Exception as e: raise HTTPException(status_code=500, detail=str(e))\<close>,
  the handler every route wraps its body in. \<open>HTTPException\<close> is itself an
  \<open>Exception\<close>, so one raised inside the body is caught and wrapped again.
\<close>

definition except_500 :: "py_exn + 'a \<Rightarrow> py_exn + 'a" where
  "except_500 m = (case m of Inl e \<Rightarrow> Inl (HTTPException 500 (StrOf e)) | Inr x \<Rightarrow> Inr x)"

text \<open>
  A Python \<open>dict\<close> keeps insertion order: an association list with distinct keys.
  \<open>d[k] = v\<close> replaces the value of a key already there (its position stays) and
  appends a new key at the end.
\<close>

type_synonym ('k, 'v) pydict = "('k \<times> 'v) list"

definition dict_contains :: "('k, 'v) pydict \<Rightarrow> 'k \<Rightarrow> bool" where
  "dict_contains d k = (k \<in> set (map fst d))"

fun dict_set :: "('k, 'v) pydict \<Rightarrow> 'k \<Rightarrow> 'v \<Rightarrow> ('k, 'v) pydict" where
  "dict_set [] k v = [(k, v)]"
| "dict_set ((k', v') # d) k v = (if k' = k then (k, v) # d else (k', v') # dict_set d k v)"

definition dict_getitem :: "('k, 'v) pydict \<Rightarrow> 'k \<Rightarrow> py_exn + 'v" where
  "dict_getitem d k = (case map_of d k of None \<Rightarrow> Inl KeyError | Some v \<Rightarrow> Inr v)"

definition dict_values :: "('k, 'v) pydict \<Rightarrow> 'v list" where
  "dict_values d = map snd d"

text \<open>\<open>xs[i]\<close> for a non-negative literal index \<open>i\<close>: \<open>IndexError\<close> out of range.\<close>

definition list_getitem :: "'a list \<Rightarrow> nat \<Rightarrow> py_exn + 'a" where
  "list_getitem xs i = (if i < length xs then Inr (xs ! i) else Inl IndexError)"

text \<open>
  \<open>xs[:n]\<close> for a Python \<open>int\<close> \<open>n\<close>: the first \<open>n\<close> elements when \<open>n \<ge> 0\<close>,
  all but the last \<open>-n\<close> elements when \<open>n < 0\<close>.
\<close>

definition slice_to :: "'a list \<Rightarrow> int \<Rightarrow> 'a list" where
  "slice_to xs n = (if 0 \<le> n then take (nat n) xs else take (length xs - nat (- n)) xs)"

text \<open>\<open>bytes.hex()\<close>: two lower-case hexadecimal digits per byte.\<close>

definition hex_digit :: "nat \<Rightarrow> char" where
  "hex_digit n = ''0123456789abcdef'' ! (n mod 16)"

definition bytes_hex :: "8 word list \<Rightarrow> string" where
  "bytes_hex bs = concat (map (\<lambda>b. [hex_digit (unat b div 16), hex_digit (unat b mod 16)]) bs)"

text \<open>Execute each step of a list of steps in order, stopping at the first exception.\<close>

fun map_exn :: "('a \<Rightarrow> py_exn + 'b) \<Rightarrow> 'a list \<Rightarrow> py_exn + 'b list" where
  "map_exn f [] = Inr []"
| "map_exn f (x # xs) =
     (case f x of
        Inl e \<Rightarrow> Inl e
      | Inr y \<Rightarrow> (case map_exn f xs of Inl e \<Rightarrow> Inl e | Inr ys \<Rightarrow> Inr (y # ys)))"


section \<open>Models (\<open>app/models/__init__.py\<close>)\<close>

text \<open>
  The pydantic models are records. A field declared without a default is required:
  constructing the model without it raises pydantic's \<open>ValidationError\<close> (a
  \<open>ValueError\<close>, neither a \<open>KeyError\<close> nor a \<open>TypeError\<close>); keyword arguments
  that name no field are ignored. The keyword arguments of a constructor call are the
  dictionary \<open>kwargs\<close>.
\<close>

record WalletCreate =
  wc_name :: string

record WalletResponse =
  private_key :: string
  public_key :: string
  wr_name :: string

definition WalletResponse_init :: "(string, string) pydict \<Rightarrow> py_exn + WalletResponse" where
  "WalletResponse_init kwargs =
     (case (map_of kwargs ''private_key'', map_of kwargs ''public_key'', map_of kwargs ''name'') of
        (Some sk, Some pk, Some n) \<Rightarrow> Inr \<lparr>private_key = sk, public_key = pk, wr_name = n\<rparr>
      | _ \<Rightarrow> Inl ValidationError)"


section \<open>The wallet store (\<open>app/api/wallets.py\<close>)\<close>

text \<open>
  \<open>wallets\<close> is the module's in-memory dictionary from the public key to the wallet
  dictionary \<open>{public_key, private_key, name}\<close>. A route that mutates it returns the
  new store beside its response. \<open>os.urandom(32)\<close> is the argument \<open>seed_bytes\<close>,
  and \<open>from_seed\<close> stands for \<open>str(Keypair.from_seed(seed_bytes).pubkey())\<close>.
\<close>

type_synonym wallet_store = "(string, (string, string) pydict) pydict"

definition create_wallet ::
  "(8 word list \<Rightarrow> string) \<Rightarrow> wallet_store \<Rightarrow> 8 word list \<Rightarrow> WalletCreate
     \<Rightarrow> (py_exn + WalletResponse) \<times> wallet_store" where
  "create_wallet from_seed wallets seed_bytes wallet_data =
     (let pk = from_seed seed_bytes;
          sk = bytes_hex seed_bytes;
          wallet = [(''public_key'', pk), (''private_key'', sk), (''name'', wc_name wallet_data)];
          wallets' = dict_set wallets pk wallet
      in (except_500
            (bind_exn (dict_getitem wallet ''public_key'') (\<lambda>rpk.
             bind_exn (dict_getitem wallet ''name'') (\<lambda>rname.
             WalletResponse_init [(''public_key'', rpk), (''name'', rname)]))),
          wallets'))"

text \<open>
  \<open>get_wallets\<close> and \<open>get_wallet\<close> return the stored dictionaries themselves; the
  route's \<open>response_model\<close> turns each into a \<open>WalletResponse\<close>, field by field.
\<close>

definition get_wallets :: "wallet_store \<Rightarrow> py_exn + WalletResponse list" where
  "get_wallets wallets = map_exn WalletResponse_init (dict_values wallets)"

definition get_wallet :: "wallet_store \<Rightarrow> string \<Rightarrow> py_exn + WalletResponse" where
  "get_wallet wallets pk =
     (if \<not> dict_contains wallets pk then Inl (HTTPException 404 (Text ''Wallet not found''))
      else bind_exn (dict_getitem wallets pk) WalletResponse_init)"


section \<open>The RPC client\<close>

text \<open>
  \<open>client\<close> is the module's \<open>solana.rpc.api.Client\<close>, with \<open>Pubkey\<close>,
  \<open>Keypair\<close> and \<open>spl.token\<close>'s \<open>Token\<close> beside it: libraries the repository calls
  and does not contain. Each call the handlers make is a field of the record; a call
  returns what the handler reads from its response (\<open>.value\<close>, or its truth value), or
  raises. The ledger does not change while one request is served, so a call is a
  function of its arguments. The client is the synchronous one: a call returns its
  response, not a coroutine.
\<close>

record RpcPerfSample =
  slot :: nat
  num_transactions :: nat

text \<open>
  A transaction of a block: \<open>tx.transaction.message\<close> with its account keys, each
  as \<open>str(key)\<close>.
\<close>

record message =
  account_keys :: "string list"

record block =
  transactions :: "message list"

record mint_info =
  mi_supply :: nat
  mi_decimals :: nat

text \<open>
  An entry of \<open>get_signatures_for_address\<close>; the library's class has the attributes
  \<open>signature\<close>, \<open>slot\<close>, \<open>err\<close>, \<open>memo\<close>, \<open>block_time\<close> and
  \<open>confirmation_status\<close>.
\<close>

record signature_info =
  signature :: string
  block_time :: "int option"

text \<open>
  The value of \<open>get_transaction\<close>: the library's confirmed transaction has the
  attributes \<open>slot\<close>, \<open>transaction\<close> and \<open>block_time\<close>; its \<open>transaction\<close>
  has the attributes \<open>transaction\<close>, \<open>meta\<close> and \<open>version\<close>, and the message is
  one level further down, in the \<open>transaction\<close> of that.
\<close>

record ui_transaction =
  ut_signatures :: "string list"
  ut_message :: message

record transaction_with_meta =
  twm_transaction :: ui_transaction

record confirmed_transaction =
  ct_slot :: nat
  ct_transaction :: transaction_with_meta
  ct_block_time :: "int option"

datatype json =
    JNull
  | JBool bool
  | JInt int
  | JFloat rat
  | JStr string
  | JList "json list"
  | JDict "(string \<times> json) list"

record client =
  Pubkey_from_string :: "string \<Rightarrow> py_exn + string"
  c_get_recent_performance_samples :: "nat \<Rightarrow> py_exn + RpcPerfSample list"
  c_get_block :: "nat \<Rightarrow> py_exn + block option"
  c_get_account_info :: "string \<Rightarrow> py_exn + bool"
  c_get_mint_info :: "string \<Rightarrow> py_exn + mint_info option"
  c_get_balance :: "string \<Rightarrow> py_exn + int option"
  c_post_getTokenAccountsByOwner :: "string \<Rightarrow> py_exn + json"
  c_get_signatures_for_address ::
    "string \<Rightarrow> int \<Rightarrow> string option \<Rightarrow> py_exn + signature_info list"
  c_get_transaction :: "string \<Rightarrow> py_exn + confirmed_transaction option"
  c_request_airdrop :: "string \<Rightarrow> int \<Rightarrow> py_exn + string option"
  c_confirm_transaction :: "string \<Rightarrow> py_exn + bool"
  c_create_mint :: "string \<Rightarrow> int \<Rightarrow> py_exn + string"

text \<open>\<open>str(TOKEN_PROGRAM_ID)\<close> of \<open>spl.token.constants\<close>.\<close>

definition TOKEN_PROGRAM_ID :: string where
  "TOKEN_PROGRAM_ID = ''TokenkegQfeZyiNwAJbNbGKPFXCWuBvf9Ss623VQ5DA''"


section \<open>Trending tokens (\<open>app/api/tokens.py\<close>)\<close>

record TokenX =
  tx_symbol :: string
  tx_name :: string
  tx_address :: string
  tx_price :: "rat option"

record token_metadata =
  md_address :: string
  md_supply :: nat
  md_decimals :: nat

text \<open>
  \<open>get_token_metadata\<close>: \<open>None\<close> when the account has no value, when the mint info
  is empty, and when anything raises.
\<close>

definition get_token_metadata :: "client \<Rightarrow> string \<Rightarrow> token_metadata option" where
  "get_token_metadata c token_address =
     (case c_get_account_info c token_address of
        Inl e \<Rightarrow> None
      | Inr has_value \<Rightarrow>
          if \<not> has_value then None
          else (case c_get_mint_info c token_address of
                  Inl e \<Rightarrow> None
                | Inr None \<Rightarrow> None
                | Inr (Some mi) \<Rightarrow>
                    Some \<lparr>md_address = token_address, md_supply = mi_supply mi,
                          md_decimals = mi_decimals mi\<rparr>))"

text \<open>
  \<open>token_transactions\<close>: the dictionary from \<open>str(account)\<close> to
  \<open>{"count", "metadata"}\<close>, in insertion order.
\<close>

record token_entry =
  count :: nat
  metadata :: token_metadata

type_synonym token_transactions = "(string, token_entry) pydict"

text \<open>The two statements at the end of the innermost loop body, for one account.\<close>

definition record_sighting ::
  "token_transactions \<Rightarrow> string \<Rightarrow> token_metadata \<Rightarrow> token_transactions" where
  "record_sighting tt account token_info =
     (let tt1 = (if \<not> dict_contains tt account
                 then dict_set tt account \<lparr>count = 0, metadata = token_info\<rparr> else tt)
      in map (\<lambda>(k, v). if k = account then (k, v\<lparr>count := count v + 1\<rparr>) else (k, v)) tt1)"

text \<open>\<open>for account in tx.transaction.message.account_keys\<close>.\<close>

fun scan_accounts :: "client \<Rightarrow> string list \<Rightarrow> token_transactions \<Rightarrow> token_transactions" where
  "scan_accounts c [] tt = tt"
| "scan_accounts c (account # rest) tt =
     (case get_token_metadata c account of
        None \<Rightarrow> scan_accounts c rest tt
      | Some token_info \<Rightarrow> scan_accounts c rest (record_sighting tt account token_info))"

text \<open>\<open>for tx in block_info.value.transactions\<close>.\<close>

fun scan_transactions :: "client \<Rightarrow> message list \<Rightarrow> token_transactions \<Rightarrow> token_transactions" where
  "scan_transactions c [] tt = tt"
| "scan_transactions c (tx # txs) tt =
     (if TOKEN_PROGRAM_ID \<in> set (account_keys tx)
      then scan_transactions c txs (scan_accounts c (account_keys tx) tt)
      else scan_transactions c txs tt)"

text \<open>\<open>for slot in slots\<close>: a slot whose block has no value is skipped.\<close>

fun scan_slots :: "client \<Rightarrow> nat list \<Rightarrow> token_transactions \<Rightarrow> py_exn + token_transactions" where
  "scan_slots c [] tt = Inr tt"
| "scan_slots c (s # slots) tt =
     (case c_get_block c s of
        Inl e \<Rightarrow> Inl e
      | Inr None \<Rightarrow> scan_slots c slots tt
      | Inr (Some block_info) \<Rightarrow> scan_slots c slots (scan_transactions c (transactions block_info) tt))"

text \<open>
  \<open>sorted(items, key=lambda x: x[1]["count"], reverse=True)\<close>. Python's sort is stable
  and stays so under \<open>reverse=True\<close>: items with equal counts keep the order they
  had. That is the stable sort in ascending order of the negated count.
\<close>

definition sorted_by_count_reverse :: "token_transactions \<Rightarrow> token_transactions" where
  "sorted_by_count_reverse items = sort_key (\<lambda>x. - int (count (snd x))) items"

definition get_trending_tokens :: "client \<Rightarrow> int \<Rightarrow> py_exn + TokenX list" where
  "get_trending_tokens c limit =
     except_500
       (bind_exn (c_get_recent_performance_samples c 5) (\<lambda>performance_samples.
          if performance_samples = []
          then Inl (HTTPException 500 (Text ''Failed to fetch recent blocks''))
          else bind_exn (scan_slots c (map slot (take 5 performance_samples)) []) (\<lambda>tt.
                 Inr (map (\<lambda>(address, data).
                             \<lparr>tx_symbol = ''Unknown'', tx_name = ''Unknown'',
                              tx_address = address, tx_price = Some 0\<rparr>)
                        (slice_to (sorted_by_count_reverse tt) limit)))))"


section \<open>Wallet balance (\<open>app/api/wallets.py\<close>)\<close>

text \<open>
  The token accounts come from a raw JSON-RPC POST; \<open>token_response.json()\<close> is any
  JSON value, and the handler applies \<open>in\<close>, subscripting and \<open>for\<close> to it. On a
  value of the wrong type these raise \<open>TypeError\<close>, on a missing key \<open>KeyError\<close>.
\<close>

fun is_prefix :: "string \<Rightarrow> string \<Rightarrow> bool" where
  "is_prefix [] s = True"
| "is_prefix (x # xs) [] = False"
| "is_prefix (x # xs) (y # ys) = (x = y \<and> is_prefix xs ys)"

fun is_substring :: "string \<Rightarrow> string \<Rightarrow> bool" where
  "is_substring sub [] = (sub = [])"
| "is_substring sub (c # s) = (is_prefix sub (c # s) \<or> is_substring sub s)"

text \<open>\<open>key in container\<close> for a string \<open>key\<close>.\<close>

fun py_contains :: "string \<Rightarrow> json \<Rightarrow> py_exn + bool" where
  "py_contains key (JDict d) = Inr (dict_contains d key)"
| "py_contains key (JList xs) = Inr (JStr key \<in> set xs)"
| "py_contains key (JStr s) = Inr (is_substring key s)"
| "py_contains key v = Inl TypeError"

text \<open>\<open>container[key]\<close> for a string \<open>key\<close>.\<close>

fun py_getitem :: "json \<Rightarrow> string \<Rightarrow> py_exn + json" where
  "py_getitem (JDict d) key = dict_getitem d key"
| "py_getitem v key = Inl TypeError"

text \<open>The items of \<open>for x in container\<close>.\<close>

fun py_iter :: "json \<Rightarrow> py_exn + json list" where
  "py_iter (JList xs) = Inr xs"
| "py_iter (JDict d) = Inr (map (\<lambda>kv. JStr (fst kv)) d)"
| "py_iter (JStr s) = Inr (map (\<lambda>ch. JStr [ch]) s)"
| "py_iter v = Inl TypeError"

record TokenBalance =
  tb_symbol :: string
  tb_balance :: rat
  tb_usd_value :: "rat option"

record WalletBalance =
  sol_balance :: rat
  wb_usd_value :: "rat option"
  tokens :: "TokenBalance list"

text \<open>
  A \<open>float\<close> field takes a JSON number. (pydantic also converts some strings; no
  call of this program passes a \<open>symbol\<close>, so no call gets as far as that.)
\<close>

fun as_float :: "json \<Rightarrow> rat option" where
  "as_float (JInt i) = Some (of_int i)"
| "as_float (JFloat r) = Some r"
| "as_float v = None"

definition TokenBalance_init :: "(string, json) pydict \<Rightarrow> py_exn + TokenBalance" where
  "TokenBalance_init kwargs =
     (case map_of kwargs ''symbol'' of
        Some (JStr s) \<Rightarrow>
          (case Option.bind (map_of kwargs ''balance'') as_float of
             None \<Rightarrow> Inl ValidationError
           | Some b \<Rightarrow>
               (case map_of kwargs ''usd_value'' of
                  None \<Rightarrow> Inr \<lparr>tb_symbol = s, tb_balance = b, tb_usd_value = None\<rparr>
                | Some JNull \<Rightarrow> Inr \<lparr>tb_symbol = s, tb_balance = b, tb_usd_value = None\<rparr>
                | Some u \<Rightarrow>
                    (case as_float u of
                       None \<Rightarrow> Inl ValidationError
                     | Some r \<Rightarrow> Inr \<lparr>tb_symbol = s, tb_balance = b, tb_usd_value = Some r\<rparr>)))
      | _ \<Rightarrow> Inl ValidationError)"

text \<open>The body of the \<open>try\<close> inside the loop over the token accounts.\<close>

definition parse_token_account :: "json \<Rightarrow> py_exn + TokenBalance" where
  "parse_token_account account =
     bind_exn (py_getitem account ''account'') (\<lambda>a.
     bind_exn (py_getitem a ''data'') (\<lambda>d.
     bind_exn (py_getitem d ''parsed'') (\<lambda>p.
     bind_exn (py_getitem p ''info'') (\<lambda>parsed_data.
     bind_exn (py_getitem parsed_data ''mint'') (\<lambda>mint_address.
     bind_exn (py_getitem parsed_data ''tokenAmount'') (\<lambda>token_amount.
     bind_exn (py_getitem token_amount ''uiAmount'') (\<lambda>ui_amount.
     TokenBalance_init
       [(''address'', mint_address), (''balance'', ui_amount), (''usd_value'', JNull)])))))))"

text \<open>
  The loop: \<open>except (KeyError, TypeError)\<close> logs and continues; any other exception
  leaves the loop and reaches the handler of the route.
\<close>

fun token_accounts_loop :: "json list \<Rightarrow> TokenBalance list \<Rightarrow> py_exn + TokenBalance list" where
  "token_accounts_loop [] token_balances = Inr token_balances"
| "token_accounts_loop (account # rest) token_balances =
     (case parse_token_account account of
        Inr tb \<Rightarrow> token_accounts_loop rest (token_balances @ [tb])
      | Inl e \<Rightarrow>
          if e = KeyError \<or> e = TypeError then token_accounts_loop rest token_balances
          else Inl e)"

definition get_wallet_balance :: "client \<Rightarrow> string \<Rightarrow> py_exn + WalletBalance" where
  "get_wallet_balance c pk =
     except_500
       (bind_exn (Pubkey_from_string c pk) (\<lambda>wallet_pubkey.
        bind_exn (c_get_balance c wallet_pubkey) (\<lambda>response_value.
          case response_value of
            None \<Rightarrow> Inl (HTTPException 500 (Text ''Failed to fetch SOL balance''))
          | Some lamports \<Rightarrow>
              bind_exn (c_post_getTokenAccountsByOwner c wallet_pubkey) (\<lambda>token_response_data.
              bind_exn (py_contains ''result'' token_response_data) (\<lambda>has_result.
              bind_exn (if has_result
                        then bind_exn (py_getitem token_response_data ''result'')
                               (py_contains ''value'')
                        else Inr False) (\<lambda>has_value.
              bind_exn (if has_value
                        then bind_exn (py_getitem token_response_data ''result'') (\<lambda>r.
                             bind_exn (py_getitem r ''value'') (\<lambda>v.
                             bind_exn (py_iter v) (\<lambda>accounts.
                             token_accounts_loop accounts [])))
                        else Inr []) (\<lambda>token_balances.
              Inr \<lparr>sol_balance = of_int lamports / 1000000000, wb_usd_value = None,
                   tokens = token_balances\<rparr>)))))))"


section \<open>Transaction history (\<open>app/api/wallets.py\<close>)\<close>

record Transaction =
  t_signature :: string
  timestamp :: int
  t_type :: string
  amount :: rat
  token_symbol :: string
  from_address :: string
  to_address :: string
  status :: string

text \<open>
  \<open>datetime.fromtimestamp(block_time)\<close>: \<open>TypeError\<close> on \<open>None\<close>; the time stays
  the number of seconds.
\<close>

definition datetime_fromtimestamp :: "int option \<Rightarrow> py_exn + int" where
  "datetime_fromtimestamp t = (case t of None \<Rightarrow> Inl TypeError | Some n \<Rightarrow> Inr n)"

text \<open>
  The handler reads \<open>tx.transaction.message\<close> of the value of \<open>get_transaction\<close>.
  The \<open>transaction\<close> of a confirmed transaction has no attribute \<open>message\<close>:
  the read raises \<open>AttributeError\<close>. What the handler expects there is a message
  with a method \<open>is_to_wallet\<close>, instructions whose \<open>data\<close> has an \<open>amount\<close>, and
  account keys.
\<close>

record transfer_message =
  tm_is_to_wallet :: "string \<Rightarrow> bool"
  tm_amounts :: "int list"
  tm_account_keys :: "string list"

definition getattr_message :: "transaction_with_meta \<Rightarrow> py_exn + transfer_message" where
  "getattr_message t = Inl AttributeError"

text \<open>\<open>signature_info.confirmed\<close>: the class has no such attribute either.\<close>

definition getattr_confirmed :: "signature_info \<Rightarrow> py_exn + bool" where
  "getattr_confirmed si = Inl AttributeError"

text \<open>
  The body of \<open>if tx_response.value:\<close>, which builds the record of one transaction.
\<close>

definition transaction_record ::
  "string \<Rightarrow> signature_info \<Rightarrow> confirmed_transaction \<Rightarrow> py_exn + Transaction" where
  "transaction_record pk si tx =
     bind_exn (getattr_message (ct_transaction tx)) (\<lambda>m.
     bind_exn (list_getitem (tm_amounts m) 0) (\<lambda>lamports.
     bind_exn (datetime_fromtimestamp (block_time si)) (\<lambda>ts.
     bind_exn (list_getitem (tm_account_keys m) 0) (\<lambda>from_key.
     bind_exn (list_getitem (tm_account_keys m) 1) (\<lambda>to_key.
     bind_exn (getattr_confirmed si) (\<lambda>is_confirmed.
     Inr \<lparr>t_signature = signature si, timestamp = ts,
          t_type = (if tm_is_to_wallet m pk then ''receive'' else ''send''),
          amount = of_int lamports / 1000000000, token_symbol = ''SOL'',
          from_address = from_key, to_address = to_key,
          status = (if is_confirmed then ''confirmed'' else ''pending'')\<rparr>))))))"

text \<open>\<open>for signature_info in response.value\<close>.\<close>

fun transactions_loop ::
  "client \<Rightarrow> string \<Rightarrow> signature_info list \<Rightarrow> Transaction list \<Rightarrow> py_exn + Transaction list" where
  "transactions_loop c pk [] txs = Inr txs"
| "transactions_loop c pk (si # rest) txs =
     (case c_get_transaction c (signature si) of
        Inl e \<Rightarrow> Inl e
      | Inr None \<Rightarrow> transactions_loop c pk rest txs
      | Inr (Some tx) \<Rightarrow>
          bind_exn (transaction_record pk si tx) (\<lambda>r.
          transactions_loop c pk rest (txs @ [r])))"

text \<open>
  \<open>client.get_signatures_for_address(pubkey, limit=limit, before=before)\<close>. The
  method takes \<open>before\<close> as a \<open>Signature\<close>; the handler passes the \<open>str\<close> of the
  query as it came, and building the request from it raises \<open>TypeError\<close>, before
  anything is sent. (The address, by contrast, goes through \<open>Pubkey.from_string\<close>.)
\<close>

definition get_signatures_for_address ::
  "client \<Rightarrow> string \<Rightarrow> int \<Rightarrow> string option \<Rightarrow> py_exn + signature_info list" where
  "get_signatures_for_address c pubkey limit before =
     (case before of
        Some cursor \<Rightarrow> Inl TypeError
      | None \<Rightarrow> c_get_signatures_for_address c pubkey limit None)"

definition get_wallet_transactions ::
  "wallet_store \<Rightarrow> client \<Rightarrow> string \<Rightarrow> int \<Rightarrow> string option \<Rightarrow> py_exn + Transaction list" where
  "get_wallet_transactions wallets c pk limit before =
     (if \<not> dict_contains wallets pk then Inl (HTTPException 404 (Text ''Wallet not found''))
      else except_500
             (bind_exn (Pubkey_from_string c pk) (\<lambda>pubkey.
              bind_exn (get_signatures_for_address c pubkey limit before) (\<lambda>sigs.
              transactions_loop c pk sigs []))))"


section \<open>Provisioning (\<open>app/api/tokens.py\<close>)\<close>

record CustomToken =
  ct_name :: string
  ct_symbol :: string
  ct_decimals :: int
  total_supply :: int

text \<open>
  The provisioning flow is judged by the calls it makes, so it returns the calls it made,
  in order, beside its result.
\<close>

datatype rpc_call =
    GetBalance string
  | RequestAirdrop string int
  | ConfirmTransaction string
  | Sleep nat
  | CreateMint string int

definition airdrop_failed :: "py_exn \<Rightarrow> py_exn" where
  "airdrop_failed e = HTTPException 500 (FStr ''Failed to request airdrop: '' e)"

text \<open>
  \<open>await client.request_airdrop(...)\<close>: \<open>request_airdrop\<close> is passed the module's
  synchronous client, whose call returns the response itself. The call is made, and
  then \<open>await\<close> of a response, which is not awaitable, raises \<open>TypeError\<close>.
\<close>

definition await_response :: "'a \<Rightarrow> py_exn + 'a" where
  "await_response response = Inl TypeError"

definition request_airdrop ::
  "client \<Rightarrow> string \<Rightarrow> int \<Rightarrow> (py_exn + string) \<times> rpc_call list" where
  "request_airdrop c wallet_address lamports =
     (case Pubkey_from_string c wallet_address of
        Inl e \<Rightarrow> (Inl (airdrop_failed e), [])
      | Inr pubkey \<Rightarrow>
          (case bind_exn (c_request_airdrop c pubkey lamports) await_response of
             Inl e \<Rightarrow> (Inl (airdrop_failed e), [RequestAirdrop pubkey lamports])
           | Inr None \<Rightarrow>
               (Inl (airdrop_failed
                       (HTTPException 500
                          (Text ''Airdrop request failed - no transaction signature returned''))),
                [RequestAirdrop pubkey lamports])
           | Inr (Some sg) \<Rightarrow>
               (case bind_exn (c_confirm_transaction c sg) await_response of
                  Inl e \<Rightarrow>
                    (Inl (airdrop_failed e),
                     [RequestAirdrop pubkey lamports, ConfirmTransaction sg])
                | Inr ok \<Rightarrow>
                    (Inr sg, [RequestAirdrop pubkey lamports, ConfirmTransaction sg]))))"

definition create_custom_token ::
  "client \<Rightarrow> (8 word list \<Rightarrow> string) \<Rightarrow> 8 word list \<Rightarrow> CustomToken
     \<Rightarrow> (py_exn + TokenX) \<times> rpc_call list" where
  "create_custom_token c from_seed seed_bytes token_data =
     (let mint_authority = from_seed seed_bytes in
      case c_get_balance c mint_authority of
        Inl e \<Rightarrow> (Inl (HTTPException 500 (StrOf e)), [GetBalance mint_authority])
      | Inr balance_before \<Rightarrow>
          (case request_airdrop c mint_authority 1000000000 of
             (Inl e, calls) \<Rightarrow>
               (Inl (HTTPException 500 (StrOf e)), GetBalance mint_authority # calls)
           | (Inr airdrop_sig, calls) \<Rightarrow>
               (let calls1 = GetBalance mint_authority # calls
                              @ [Sleep 30, ConfirmTransaction airdrop_sig] in
                case c_confirm_transaction c airdrop_sig of
                  Inl e \<Rightarrow> (Inl (HTTPException 500 (StrOf e)), calls1)
                | Inr confirmation \<Rightarrow>
                    if \<not> confirmation
                    then (Inl (HTTPException 500
                                 (StrOf (HTTPException 500
                                           (Text ''Failed to confirm airdrop transaction'')))),
                          calls1)
                    else
                      (let calls2 = calls1 @ [GetBalance mint_authority] in
                       case c_get_balance c mint_authority of
                         Inl e \<Rightarrow> (Inl (HTTPException 500 (StrOf e)), calls2)
                       | Inr balance_after \<Rightarrow>
                           (let calls3 = calls2
                                  @ [CreateMint mint_authority (ct_decimals token_data)] in
                            case c_create_mint c mint_authority (ct_decimals token_data) of
                              Inl e \<Rightarrow> (Inl (HTTPException 500 (StrOf e)), calls3)
                            | Inr token_pubkey \<Rightarrow>
                                (Inr \<lparr>tx_symbol = ct_symbol token_data,
                                      tx_name = ct_name token_data,
                                      tx_address = token_pubkey, tx_price = None\<rparr>,
                                 calls3))))))"


section \<open>Scenarios\<close>

text \<open>
  Concrete clients and inputs, on which the handlers are run. \<open>offline_client\<close> accepts
  every address and fails every remote call; a scenario overrides the calls it needs.
\<close>

definition offline_client :: client where
  "offline_client =
     \<lparr>Pubkey_from_string = Inr,
      c_get_recent_performance_samples = (\<lambda>n. Inl (RpcError ''unavailable'')),
      c_get_block = (\<lambda>s. Inl (RpcError ''unavailable'')),
      c_get_account_info = (\<lambda>a. Inl (RpcError ''unavailable'')),
      c_get_mint_info = (\<lambda>a. Inl (RpcError ''unavailable'')),
      c_get_balance = (\<lambda>a. Inl (RpcError ''unavailable'')),
      c_post_getTokenAccountsByOwner = (\<lambda>a. Inl (RpcError ''unavailable'')),
      c_get_signatures_for_address = (\<lambda>a l b. Inl (RpcError ''unavailable'')),
      c_get_transaction = (\<lambda>s. Inl (RpcError ''unavailable'')),
      c_request_airdrop = (\<lambda>a l. Inl (RpcError ''unavailable'')),
      c_confirm_transaction = (\<lambda>s. Inl (RpcError ''unavailable'')),
      c_create_mint = (\<lambda>a d. Inl (RpcError ''unavailable''))\<rparr>"

text \<open>Two performance samples, and no block behind either slot.\<close>

definition no_blocks_client :: client where
  "no_blocks_client =
     offline_client
       \<lparr>c_get_recent_performance_samples :=
          (\<lambda>n. Inr [\<lparr>slot = 101, num_transactions = 7\<rparr>, \<lparr>slot = 102, num_transactions = 3\<rparr>]),
        c_get_block := (\<lambda>s. Inr None)\<rparr>"

text \<open>
  One block of three transactions, two of them naming the token program. The accounts
  with mint metadata are seen in the order \<open>MintA\<close>, \<open>MintB\<close>, \<open>MintB\<close>,
  \<open>MintC\<close>: \<open>MintB\<close> twice, \<open>MintA\<close> and \<open>MintC\<close> once each, \<open>MintA\<close> first.
\<close>

definition mint_samples :: "RpcPerfSample list" where
  "mint_samples = [\<lparr>slot = 101, num_transactions = 3\<rparr>, \<lparr>slot = 102, num_transactions = 0\<rparr>]"

definition mint_client :: client where
  "mint_client =
     offline_client
       \<lparr>c_get_recent_performance_samples := (\<lambda>n. Inr mint_samples),
        c_get_block :=
          (\<lambda>s. if s = 101
                then Inr (Some \<lparr>transactions =
                  [\<lparr>account_keys = [''MintA'', TOKEN_PROGRAM_ID, ''MintB'']\<rparr>,
                   \<lparr>account_keys = [''MintB'', TOKEN_PROGRAM_ID, ''MintC'']\<rparr>,
                   \<lparr>account_keys = [''MintD'', ''MintA'']\<rparr>]\<rparr>)
                else Inr None),
        c_get_account_info :=
          (\<lambda>a. Inr (a = ''MintA'' \<or> a = ''MintB'' \<or> a = ''MintC'' \<or> a = ''MintD'')),
        c_get_mint_info := (\<lambda>a. Inr (Some \<lparr>mi_supply = 1000, mi_decimals = 9\<rparr>))\<rparr>"

text \<open>The dictionary the scan of that block ends with.\<close>

definition mint_scan :: token_transactions where
  "mint_scan =
     [(''MintA'', \<lparr>count = 1, metadata = \<lparr>md_address = ''MintA'', md_supply = 1000, md_decimals = 9\<rparr>\<rparr>),
      (''MintB'', \<lparr>count = 2, metadata = \<lparr>md_address = ''MintB'', md_supply = 1000, md_decimals = 9\<rparr>\<rparr>),
      (''MintC'', \<lparr>count = 1, metadata = \<lparr>md_address = ''MintC'', md_supply = 1000, md_decimals = 9\<rparr>\<rparr>)]"

text \<open>The funds request answers, with no signature.\<close>

definition no_signature_client :: client where
  "no_signature_client =
     offline_client
       \<lparr>c_get_balance := (\<lambda>a. Inr (Some 0)),
        c_request_airdrop := (\<lambda>a l. Inr None)\<rparr>"

definition example_token :: CustomToken where
  "example_token =
     \<lparr>ct_name = ''Example'', ct_symbol = ''EXM'', ct_decimals = 9, total_supply = 1000\<rparr>"

text \<open>A balance of 2500000000 lamports and no token account.\<close>

definition empty_accounts_client :: client where
  "empty_accounts_client =
     offline_client
       \<lparr>c_get_balance := (\<lambda>a. Inr (Some 2500000000)),
        c_post_getTokenAccountsByOwner :=
          (\<lambda>a. Inr (JDict [(''jsonrpc'', JStr ''2.0''),
                            (''result'', JDict [(''context'', JDict [(''slot'', JInt 1)]),
                                                (''value'', JList [])]),
                            (''id'', JInt 1)]))\<rparr>"

text \<open>A token account as the RPC returns it under \<open>jsonParsed\<close>.\<close>

definition token_account :: "string \<Rightarrow> json \<Rightarrow> json" where
  "token_account mint ui =
     JDict [(''account'',
       JDict [(''data'',
         JDict [(''parsed'',
           JDict [(''info'',
             JDict [(''mint'', JStr mint),
                    (''tokenAmount'', JDict [(''uiAmount'', ui)])])])])])]"

text \<open>A balance of one SOL and one well-formed token account holding 1.5 tokens.\<close>

definition one_token_client :: client where
  "one_token_client =
     offline_client
       \<lparr>c_get_balance := (\<lambda>a. Inr (Some 1000000000)),
        c_post_getTokenAccountsByOwner :=
          (\<lambda>a. Inr (JDict [(''result'', JDict [(''value'',
                   JList [token_account ''Mint1'' (JFloat (3 / 2))])])]))\<rparr>"

text \<open>The same balance and one token account whose \<open>info\<close> has no \<open>mint\<close>.\<close>

definition malformed_account_client :: client where
  "malformed_account_client =
     offline_client
       \<lparr>c_get_balance := (\<lambda>a. Inr (Some 1000000000)),
        c_post_getTokenAccountsByOwner :=
          (\<lambda>a. Inr (JDict [(''result'', JDict [(''value'',
                   JList [JDict [(''account'', JDict [(''data'', JDict [(''parsed'',
                            JDict [(''info'', JDict [])])])])]])])]))\<rparr>"

text \<open>
  A wallet of the store and its ledger of signatures, newest first, served as the RPC
  serves it: a limit outside 1..1000 is refused and the page has at most \<open>limit\<close>
  signatures. \<open>sig1\<close> and \<open>sig3\<close> have a transaction, \<open>sig2\<close> has none.
\<close>

definition example_address :: string where
  "example_address = ''Vote111111111111111111111111111111111111111''"

definition wallet_store_1 :: wallet_store where
  "wallet_store_1 =
     [(example_address,
       [(''public_key'', example_address), (''private_key'', ''00''), (''name'', ''main'')])]"

definition sig_info :: "string \<Rightarrow> int \<Rightarrow> signature_info" where
  "sig_info s t = \<lparr>signature = s, block_time = Some t\<rparr>"

definition transfer :: "string \<Rightarrow> nat \<Rightarrow> int \<Rightarrow> confirmed_transaction" where
  "transfer s n t =
     \<lparr>ct_slot = n,
      ct_transaction = \<lparr>twm_transaction =
        \<lparr>ut_signatures = [s],
         ut_message = \<lparr>account_keys = [''Stake11111111111111111111111111111111111111'',
                                        example_address,
                                        ''11111111111111111111111111111111'']\<rparr>\<rparr>\<rparr>,
      ct_block_time = Some t\<rparr>"

definition history_client :: "signature_info list \<Rightarrow> client" where
  "history_client ledger =
     offline_client
       \<lparr>c_get_signatures_for_address :=
          (\<lambda>a limit before.
             if limit < 1 \<or> 1000 < limit then Inl (RpcError ''Invalid limit'')
             else Inr (take (nat limit) ledger)),
        c_get_transaction :=
          (\<lambda>s. if s = ''sig1'' then Inr (Some (transfer s 31 300))
                else if s = ''sig3'' then Inr (Some (transfer s 11 100))
                else Inr None)\<rparr>"

definition ledger_132 :: "signature_info list" where
  "ledger_132 = [sig_info ''sig1'' 300, sig_info ''sig3'' 200, sig_info ''sig2'' 100]"



section \<open>Notions the properties are stated with\<close>

text \<open>
  The accounts the innermost loop of the scan visits, in order: every account key of
  every transaction that names the token program, block after block; a slot without a
  block contributes none. A sighting is a visit of an account whose mint metadata
  resolves.
\<close>

definition has_metadata :: "client \<Rightarrow> string \<Rightarrow> bool" where
  "has_metadata c a = (get_token_metadata c a \<noteq> None)"

definition visited_accounts :: "message list \<Rightarrow> string list" where
  "visited_accounts txs =
     concat (map (\<lambda>tx. if TOKEN_PROGRAM_ID \<in> set (account_keys tx) then account_keys tx else [])
               txs)"

definition block_accounts :: "client \<Rightarrow> nat \<Rightarrow> string list" where
  "block_accounts c s =
     (case c_get_block c s of
        Inr (Some b) \<Rightarrow> visited_accounts (transactions b)
      | _ \<Rightarrow> [])"

definition sightings :: "client \<Rightarrow> nat list \<Rightarrow> string list" where
  "sightings c slots = filter (has_metadata c) (concat (map (block_accounts c) slots))"

definition block_fetched :: "client \<Rightarrow> nat \<Rightarrow> bool" where
  "block_fetched c s = (case c_get_block c s of Inl e \<Rightarrow> False | Inr b \<Rightarrow> True)"

text \<open>
  The candidates are the sighted accounts, each once, in the order of their first
  sighting. The participation count of a candidate is the number of its sightings.
  \<open>position\<close> is the index of the first occurrence. \<open>ranks_before\<close>: more
  sightings first, and among equals the one sighted first.
\<close>

fun first_occurrences :: "'a list \<Rightarrow> 'a list" where
  "first_occurrences [] = []"
| "first_occurrences (x # xs) = x # filter (\<lambda>y. y \<noteq> x) (first_occurrences xs)"

fun position :: "'a list \<Rightarrow> 'a \<Rightarrow> nat" where
  "position [] a = 0"
| "position (x # xs) a = (if x = a then 0 else Suc (position xs a))"

definition ranks_before :: "string list \<Rightarrow> string \<Rightarrow> string \<Rightarrow> bool" where
  "ranks_before S a b =
     (count_list S b < count_list S a
      \<or> (count_list S a = count_list S b \<and> position S a < position S b))"

text \<open>The same on the dictionary of the scan, and one step of the scan.\<close>

definition participation :: "token_transactions \<Rightarrow> string \<Rightarrow> nat" where
  "participation tt a = (case map_of tt a of None \<Rightarrow> 0 | Some e \<Rightarrow> count e)"

definition in_rank_order ::
  "token_transactions \<Rightarrow> (string \<times> token_entry) \<Rightarrow> (string \<times> token_entry) \<Rightarrow> bool" where
  "in_rank_order tt x y =
     (count (snd y) < count (snd x)
      \<or> (count (snd x) = count (snd y)
          \<and> position (map fst tt) (fst x) < position (map fst tt) (fst y)))"

definition sight :: "client \<Rightarrow> token_transactions \<Rightarrow> string \<Rightarrow> token_transactions" where
  "sight c tt a =
     (case get_token_metadata c a of None \<Rightarrow> tt | Some m \<Rightarrow> record_sighting tt a m)"

text \<open>A signature is unresolved when \<open>get_transaction\<close> has no value for it.\<close>

definition unresolved :: "client \<Rightarrow> signature_info \<Rightarrow> bool" where
  "unresolved c si = (c_get_transaction c (signature si) = Inr None)"


section \<open>Properties of the wallet store\<close>

lemma map_of_dict_set: "map_of (dict_set d k v) k = Some v"
  by (induction d) auto

lemma dict_contains_dict_set: "dict_contains (dict_set d k v) k"
  using map_of_dict_set [of d k v]
  by (auto simp: dict_contains_def dest!: map_of_SomeD intro: rev_image_eqI)

lemma create_wallet_store:
  "snd (create_wallet from_seed wallets seed_bytes wallet_data) =
     dict_set wallets (from_seed seed_bytes)
       [(''public_key'', from_seed seed_bytes), (''private_key'', bytes_hex seed_bytes),
        (''name'', wc_name wallet_data)]"
  by (simp add: create_wallet_def Let_def)

lemma create_wallet_response:
  "fst (create_wallet from_seed wallets seed_bytes wallet_data) =
     Inl (HTTPException 500 (StrOf ValidationError))"
  by (simp add: create_wallet_def Let_def except_500_def bind_exn_def dict_getitem_def
      WalletResponse_init_def)

lemma bytes_hex_example: "bytes_hex [0x01, 0xab, 0xff] = ''01abff''"
  by (simp add: bytes_hex_def hex_digit_def)

text \<open>
  C10. \<open>create_wallet\<close> is not atomic with respect to the store: the wallet, secret
  seed included, is inserted before the response is built. Building the response
  raises (the call names no \<open>private_key\<close>, a required field of \<open>WalletResponse\<close>), the
  route answers with status 500, and the store holds the new wallet all the same.
\<close>

theorem create_wallet_not_atomic:
  "fst (create_wallet from_seed wallets seed_bytes wallet_data)
     = Inl (HTTPException 500 (StrOf ValidationError))
   \<and> dict_getitem (snd (create_wallet from_seed wallets seed_bytes wallet_data))
        (from_seed seed_bytes)
     = Inr [(''public_key'', from_seed seed_bytes), (''private_key'', bytes_hex seed_bytes),
            (''name'', wc_name wallet_data)]"
  by (simp add: create_wallet_response create_wallet_store dict_getitem_def map_of_dict_set)

text \<open>
  C1. The claim is that no wallet response carries the secret key. The code gives it
  away: \<open>WalletResponse\<close> declares \<open>private_key\<close>, and \<open>get_wallet\<close> and
  \<open>get_wallets\<close> answer with the stored dictionary, so for a wallet that
  \<open>create_wallet\<close> stored both return the hexadecimal seed.
\<close>

theorem wallet_responses_carry_private_key:
  "get_wallet (snd (create_wallet from_seed wallets seed_bytes wallet_data)) (from_seed seed_bytes)
     = Inr \<lparr>private_key = bytes_hex seed_bytes, public_key = from_seed seed_bytes,
            wr_name = wc_name wallet_data\<rparr>
   \<and> get_wallets (snd (create_wallet from_seed [] seed_bytes wallet_data))
     = Inr [\<lparr>private_key = bytes_hex seed_bytes, public_key = from_seed seed_bytes,
             wr_name = wc_name wallet_data\<rparr>]"
  by (simp add: get_wallet_def get_wallets_def create_wallet_store dict_contains_dict_set
      bind_exn_def dict_getitem_def map_of_dict_set dict_values_def WalletResponse_init_def)


section \<open>Properties of trending tokens\<close>

lemma slice_to_Nil: "slice_to [] n = []"
  by (simp add: slice_to_def)

lemma scan_slots_unavailable:
  "list_all (\<lambda>s. c_get_block c s = Inr None) slots \<Longrightarrow> scan_slots c slots tt = Inr tt"
  by (induction slots) auto

text \<open>
  C2, as the code has it. When the performance samples are there and every fetched
  block is unavailable, each slot is skipped, no candidate is recorded, and
  \<open>get_trending_tokens\<close> returns the empty list as a success, whatever the limit. It
  raises only when the samples are empty, or when a fetch raises.
\<close>

theorem trending_all_blocks_unavailable:
  assumes "c_get_recent_performance_samples c 5 = Inr samples"
    and "samples \<noteq> []"
    and "list_all (\<lambda>s. c_get_block c s = Inr None) (map slot (take 5 samples))"
  shows "get_trending_tokens c limit = Inr []"
  using assms scan_slots_unavailable [of c "map slot (take 5 samples)" "[]"]
  by (simp add: get_trending_tokens_def except_500_def bind_exn_def
      sorted_by_count_reverse_def slice_to_Nil)

theorem trending_all_blocks_unavailable_witness:
  "get_trending_tokens no_blocks_client 3 = Inr []"
  using trending_all_blocks_unavailable
    [of no_blocks_client
        "[\<lparr>slot = 101, num_transactions = 7\<rparr>, \<lparr>slot = 102, num_transactions = 3\<rparr>]" 3]
  by (simp add: no_blocks_client_def offline_client_def)

text \<open>
  C2 as the claim has it fails: with two samples and no block behind either slot the
  result is a success, the empty list, and no error.
\<close>

theorem trending_no_blocks_counterexample:
  "get_trending_tokens no_blocks_client 10 = Inr []"
  by (simp add: get_trending_tokens_def no_blocks_client_def offline_client_def
      except_500_def bind_exn_def sorted_by_count_reverse_def slice_to_Nil)

subsection \<open>The keys of the scan's dictionary stay distinct\<close>

lemma keys_dict_set_new:
  "k \<notin> set (map fst d) \<Longrightarrow> map fst (dict_set d k v) = map fst d @ [k]"
  by (induction d) auto

lemma keys_increment:
  "map fst (map (\<lambda>(k, v). if k = a then (k, g v) else (k, v)) xs) = map fst xs"
  by (induction xs) auto

lemma keys_record_sighting:
  "map fst (record_sighting tt a m)
     = (if a \<in> set (map fst tt) then map fst tt else map fst tt @ [a])"
  unfolding record_sighting_def Let_def dict_contains_def keys_increment
  by (simp add: keys_dict_set_new del: set_map)

lemma distinct_record_sighting:
  "distinct (map fst tt) \<Longrightarrow> distinct (map fst (record_sighting tt a m))"
  by (simp add: keys_record_sighting)

lemma distinct_scan_accounts:
  "distinct (map fst tt) \<Longrightarrow> distinct (map fst (scan_accounts c accounts tt))"
  by (induction accounts arbitrary: tt) (auto split: option.splits intro: distinct_record_sighting)

lemma distinct_scan_transactions:
  "distinct (map fst tt) \<Longrightarrow> distinct (map fst (scan_transactions c txs tt))"
  by (induction txs arbitrary: tt) (auto intro: distinct_scan_accounts)

lemma distinct_scan_slots:
  "distinct (map fst tt) \<Longrightarrow> scan_slots c slots tt = Inr tt' \<Longrightarrow> distinct (map fst tt')"
  by (induction slots arbitrary: tt)
    (auto split: sum.splits option.splits intro: distinct_scan_transactions)

subsection \<open>The stable sort ranks the candidates\<close>

lemma sorted_wrt_insort_key:
  fixes f :: "'a \<Rightarrow> int"
  assumes "sorted_wrt R xs" and "sorted (map f xs)"
    and "\<And>y. y \<in> set xs \<Longrightarrow> f y < f a \<Longrightarrow> R y a"
    and "\<And>y. y \<in> set xs \<Longrightarrow> f a \<le> f y \<Longrightarrow> R a y"
  shows "sorted_wrt R (insort_key f a xs)"
  using assms
proof (induction xs)
  case Nil
  then show ?case by simp
next
  case (Cons y ys)
  show ?case
  proof (cases "f a \<le> f y")
    case True
    have "\<And>z. z \<in> set (y # ys) \<Longrightarrow> R a z"
    proof -
      fix z assume z: "z \<in> set (y # ys)"
      have "f y \<le> f z" using Cons.prems(2) z by auto
      with True have "f a \<le> f z" by simp
      with Cons.prems(4) z show "R a z" by blast
    qed
    with True Cons.prems(1) show ?thesis by simp
  next
    case False
    have ih: "sorted_wrt R (insort_key f a ys)"
      using Cons.prems by (intro Cons.IH) auto
    have "R y a" using False Cons.prems(3) by simp
    with False ih Cons.prems(1) show ?thesis by (auto simp: set_insort_key)
  qed
qed

lemma sorted_wrt_sort_key_count:
  "distinct (map fst tt) \<Longrightarrow>
     sorted_wrt (in_rank_order tt) (sort_key (\<lambda>x. - int (count (snd x))) tt)"
proof (induction tt)
  case Nil
  then show ?case by simp
next
  case (Cons a tt)
  let ?f = "\<lambda>x :: string \<times> token_entry. - int (count (snd x))"
  from Cons.prems have d: "distinct (map fst tt)" and na: "fst a \<notin> fst ` set tt" by auto
  have ih: "sorted_wrt (in_rank_order tt) (sort_key ?f tt)" using Cons.IH d by simp
  have mono: "sorted_wrt (in_rank_order (a # tt)) (sort_key ?f tt)"
  proof (rule sorted_wrt_mono_rel [OF _ ih])
    fix x y assume "x \<in> set (sort_key ?f tt)" "y \<in> set (sort_key ?f tt)" "in_rank_order tt x y"
    moreover from this na have "fst a \<noteq> fst x" "fst a \<noteq> fst y" by auto
    ultimately show "in_rank_order (a # tt) x y" by (simp add: in_rank_order_def)
  qed
  have "sorted_wrt (in_rank_order (a # tt)) (insort_key ?f a (sort_key ?f tt))"
  proof (rule sorted_wrt_insort_key [OF mono])
    show "sorted (map ?f (sort_key ?f tt))" by (rule sorted_sort_key)
  next
    fix y assume "y \<in> set (sort_key ?f tt)" "?f y < ?f a"
    then show "in_rank_order (a # tt) y a" by (simp add: in_rank_order_def)
  next
    fix y assume y: "y \<in> set (sort_key ?f tt)" "?f a \<le> ?f y"
    with na have "fst a \<noteq> fst y" by auto
    with y show "in_rank_order (a # tt) a y" by (auto simp: in_rank_order_def)
  qed
  then show ?case by simp
qed


subsection \<open>The scan is a fold over the visited accounts\<close>

lemma scan_accounts_foldl: "scan_accounts c accounts tt = foldl (sight c) tt accounts"
  by (induction accounts arbitrary: tt) (simp_all add: sight_def split: option.splits)

lemma scan_transactions_foldl:
  "scan_transactions c txs tt = foldl (sight c) tt (visited_accounts txs)"
  by (induction txs arbitrary: tt) (simp_all add: visited_accounts_def scan_accounts_foldl)

lemma scan_slots_foldl:
  "list_all (block_fetched c) slots \<Longrightarrow>
     scan_slots c slots tt = Inr (foldl (sight c) tt (concat (map (block_accounts c) slots)))"
proof (induction slots arbitrary: tt)
  case Nil
  then show ?case by simp
next
  case (Cons s slots)
  then have f: "block_fetched c s" and r: "list_all (block_fetched c) slots" by simp_all
  from f obtain b where b: "c_get_block c s = Inr b"
    by (auto simp: block_fetched_def split: sum.splits)
  show ?case
  proof (cases b)
    case None
    with b Cons.IH [OF r] show ?thesis by (simp add: block_accounts_def)
  next
    case (Some blk)
    with b Cons.IH [OF r] show ?thesis
      by (simp add: block_accounts_def scan_transactions_foldl)
  qed
qed

subsection \<open>The keys are the candidates, in the order of their first sighting\<close>

lemma filter_filter_absorb:
  "(\<And>y. P y \<Longrightarrow> Q y) \<Longrightarrow> filter P (filter Q xs) = filter P xs"
  by (induction xs) auto

lemma filter_swap: "filter P (filter Q xs) = filter Q (filter P xs)"
  by (induction xs) auto

lemma first_occurrences_filter:
  "first_occurrences (filter P xs) = filter P (first_occurrences xs)"
proof (induction xs)
  case Nil
  then show ?case by simp
next
  case (Cons x xs)
  show ?case
  proof (cases "P x")
    case True
    have "filter (\<lambda>y. y \<noteq> x) (filter P (first_occurrences xs))
            = filter P (filter (\<lambda>y. y \<noteq> x) (first_occurrences xs))"
      by (rule filter_swap)
    with True Cons.IH show ?thesis by simp
  next
    case False
    then have "filter P (filter (\<lambda>y. y \<noteq> x) (first_occurrences xs))
                 = filter P (first_occurrences xs)"
      by (intro filter_filter_absorb) auto
    with False Cons.IH show ?thesis by simp
  qed
qed


lemma keys_sight:
  "map fst (sight c tt a)
     = (if has_metadata c a \<and> a \<notin> set (map fst tt) then map fst tt @ [a] else map fst tt)"
proof (cases "get_token_metadata c a")
  case None
  then show ?thesis by (simp add: sight_def has_metadata_def)
next
  case (Some m)
  then show ?thesis by (simp add: sight_def has_metadata_def keys_record_sighting)
qed

lemma keys_foldl_sight:
  "map fst (foldl (sight c) tt accounts)
     = map fst tt
       @ first_occurrences (filter (\<lambda>a. a \<notin> set (map fst tt)) (filter (has_metadata c) accounts))"
proof (induction accounts arbitrary: tt)
  case Nil
  then show ?case by simp
next
  case (Cons a accounts)
  let ?K = "map fst tt"
  let ?M = "filter (has_metadata c) accounts"
  have ih: "map fst (foldl (sight c) (sight c tt a) accounts)
              = map fst (sight c tt a)
                @ first_occurrences (filter (\<lambda>x. x \<notin> set (map fst (sight c tt a))) ?M)"
    by (rule Cons.IH)
  show ?case
  proof (cases "has_metadata c a")
    case False
    then have k: "map fst (sight c tt a) = ?K" by (simp add: keys_sight)
    from False have "filter (has_metadata c) (a # accounts) = ?M" by simp
    with ih k show ?thesis by (simp only: foldl_Cons)
  next
    case True
    note md = True
    show ?thesis
    proof (cases "a \<in> set ?K")
      case True
      with md have k: "map fst (sight c tt a) = ?K" by (simp add: keys_sight)
      from md True have
        "filter (\<lambda>x. x \<notin> set ?K) (filter (has_metadata c) (a # accounts))
           = filter (\<lambda>x. x \<notin> set ?K) ?M"
        by simp
      with ih k show ?thesis by (simp only: foldl_Cons)
    next
      case False
      with md have k: "map fst (sight c tt a) = ?K @ [a]" by (simp add: keys_sight)
      have f1: "filter (\<lambda>x. x \<notin> set (?K @ [a])) ?M
                  = filter (\<lambda>y. y \<noteq> a) (filter (\<lambda>x. x \<notin> set ?K) ?M)"
        by (induction accounts) auto
      from md False have f2:
        "filter (\<lambda>x. x \<notin> set ?K) (filter (has_metadata c) (a # accounts))
           = a # filter (\<lambda>x. x \<notin> set ?K) ?M"
        by simp
      have "map fst (foldl (sight c) tt (a # accounts))
              = (?K @ [a]) @ first_occurrences (filter (\<lambda>x. x \<notin> set (?K @ [a])) ?M)"
        using ih k by (simp only: foldl_Cons)
      also have "\<dots> = ?K @ a # filter (\<lambda>y. y \<noteq> a)
                              (first_occurrences (filter (\<lambda>x. x \<notin> set ?K) ?M))"
        by (simp only: f1 first_occurrences_filter append_assoc append_Cons append_Nil)
      also have "\<dots> = ?K @ first_occurrences (a # filter (\<lambda>x. x \<notin> set ?K) ?M)"
        by (simp only: first_occurrences.simps)
      finally show ?thesis by (simp only: f2)
    qed
  qed
qed


subsection \<open>The count of a candidate is the number of its sightings\<close>

lemma map_of_increment:
  "map_of (map (\<lambda>(k, v). if k = a then (k, g v) else (k, v)) xs) b
     = (if b = a then map_option g (map_of xs b) else map_of xs b)"
  by (induction xs) auto

lemma map_of_dict_set_other: "b \<noteq> k \<Longrightarrow> map_of (dict_set d k v) b = map_of d b"
  by (induction d) auto

lemma participation_record_sighting:
  "participation (record_sighting tt a m) b = participation tt b + (if b = a then 1 else 0)"
proof (cases "dict_contains tt a")
  case True
  then have "map_of tt a \<noteq> None" by (simp add: dict_contains_def map_of_eq_None_iff)
  then obtain e where e: "map_of tt a = Some e" by blast
  have r: "record_sighting tt a m
             = map (\<lambda>(k, v). if k = a then (k, v\<lparr>count := count v + 1\<rparr>) else (k, v)) tt"
    using True by (simp add: record_sighting_def)
  show ?thesis
  proof (cases "b = a")
    case True
    with e show ?thesis by (simp add: participation_def r map_of_increment)
  next
    case False
    then show ?thesis by (simp add: participation_def r map_of_increment)
  qed
next
  case False
  then have n: "map_of tt a = None" by (simp add: dict_contains_def map_of_eq_None_iff)
  have r: "record_sighting tt a m
             = map (\<lambda>(k, v). if k = a then (k, v\<lparr>count := count v + 1\<rparr>) else (k, v))
                 (dict_set tt a \<lparr>count = 0, metadata = m\<rparr>)"
    using False by (simp add: record_sighting_def)
  show ?thesis
  proof (cases "b = a")
    case True
    with n show ?thesis by (simp add: participation_def r map_of_increment map_of_dict_set)
  next
    case False
    then show ?thesis
      by (simp add: participation_def r map_of_increment map_of_dict_set_other)
  qed
qed

lemma participation_sight:
  "participation (sight c tt a) b
     = participation tt b + (if has_metadata c a \<and> b = a then 1 else 0)"
proof (cases "get_token_metadata c a")
  case None
  then show ?thesis by (simp add: sight_def has_metadata_def)
next
  case (Some m)
  then show ?thesis by (simp add: sight_def has_metadata_def participation_record_sighting)
qed

lemma participation_foldl_sight:
  "participation (foldl (sight c) tt accounts) b
     = participation tt b + count_list (filter (has_metadata c) accounts) b"
proof (induction accounts arbitrary: tt)
  case Nil
  then show ?case by simp
next
  case (Cons a accounts)
  have "participation (foldl (sight c) tt (a # accounts)) b
          = participation (sight c tt a) b + count_list (filter (has_metadata c) accounts) b"
    using Cons.IH [of "sight c tt a"] by simp
  then show ?case by (simp add: participation_sight)
qed

subsection \<open>Positions\<close>

lemma position_filter_order:
  "P a \<Longrightarrow> P b \<Longrightarrow> position (filter P xs) a < position (filter P xs) b
     \<Longrightarrow> position xs a < position xs b"
proof (induction xs)
  case Nil
  then show ?case by simp
next
  case (Cons x xs)
  show ?case
  proof (cases "x = a")
    case True
    with Cons.prems have "b \<noteq> a" by auto
    with True show ?thesis by simp
  next
    case False
    note xa = False
    show ?thesis
    proof (cases "x = b")
      case True
      with Cons.prems xa show ?thesis by simp
    next
      case False
      show ?thesis
      proof (cases "P x")
        case True
        with Cons.prems xa False have "position (filter P xs) a < position (filter P xs) b"
          by simp
        with Cons.IH Cons.prems(1,2) xa False show ?thesis by simp
      next
        case False
        with Cons.prems have "position (filter P xs) a < position (filter P xs) b" by simp
        with Cons.IH Cons.prems(1,2) xa \<open>x \<noteq> b\<close> show ?thesis by simp
      qed
    qed
  qed
qed

lemma position_first_occurrences_order:
  "position (first_occurrences xs) a < position (first_occurrences xs) b
     \<Longrightarrow> position xs a < position xs b"
proof (induction xs)
  case Nil
  then show ?case by simp
next
  case (Cons x xs)
  show ?case
  proof (cases "x = a")
    case True
    with Cons.prems have "b \<noteq> a" by auto
    with True show ?thesis by simp
  next
    case False
    note xa = False
    show ?thesis
    proof (cases "x = b")
      case True
      with Cons.prems xa show ?thesis by simp
    next
      case False
      with Cons.prems xa have
        "position (filter (\<lambda>y. y \<noteq> x) (first_occurrences xs)) a
           < position (filter (\<lambda>y. y \<noteq> x) (first_occurrences xs)) b"
        by simp
      moreover have "a \<noteq> x" "b \<noteq> x" using xa False by auto
      ultimately have "position (first_occurrences xs) a < position (first_occurrences xs) b"
        using position_filter_order [of "\<lambda>y. y \<noteq> x" a b "first_occurrences xs"] by simp
      with Cons.IH xa False show ?thesis by simp
    qed
  qed
qed


lemma set_first_occurrences: "set (first_occurrences xs) = set xs"
  by (induction xs) auto

subsection \<open>The result is the head of the ranking\<close>

lemma participation_member:
  "distinct (map fst tt) \<Longrightarrow> x \<in> set tt \<Longrightarrow> participation tt (fst x) = count (snd x)"
  by (cases x) (simp add: participation_def)

lemma scan_of_sightings:
  assumes "list_all (block_fetched c) slots"
  defines "tt \<equiv> foldl (sight c) [] (concat (map (block_accounts c) slots))"
  shows "scan_slots c slots [] = Inr tt"
    and "map fst tt = first_occurrences (sightings c slots)"
    and "participation tt a = count_list (sightings c slots) a"
    and "distinct (map fst tt)"
proof -
  show s: "scan_slots c slots [] = Inr tt"
    unfolding tt_def by (rule scan_slots_foldl [OF assms(1)])
  show "map fst tt = first_occurrences (sightings c slots)"
    unfolding tt_def sightings_def
    using keys_foldl_sight [of c "[]" "concat (map (block_accounts c) slots)"] by simp
  show "participation tt a = count_list (sightings c slots) a"
    unfolding tt_def sightings_def
    using participation_foldl_sight [of c "[]" "concat (map (block_accounts c) slots)" a]
    by (simp add: participation_def)
  show "distinct (map fst tt)"
    using distinct_scan_slots [OF _ s] by simp
qed

lemma ranks_before_of_rank_order:
  assumes d: "distinct (map fst tt)"
    and k: "map fst tt = first_occurrences S"
    and p: "\<And>a. participation tt a = count_list S a"
    and x: "x \<in> set tt" and y: "y \<in> set tt"
    and r: "in_rank_order tt x y"
  shows "ranks_before S (fst x) (fst y)"
proof -
  have cx: "count (snd x) = count_list S (fst x)"
    using participation_member [OF d x] p by simp
  have cy: "count (snd y) = count_list S (fst y)"
    using participation_member [OF d y] p by simp
  from r consider "count (snd y) < count (snd x)"
    | "count (snd x) = count (snd y)"
      "position (first_occurrences S) (fst x) < position (first_occurrences S) (fst y)"
    unfolding in_rank_order_def k by blast
  then show ?thesis
  proof cases
    case 1
    then show ?thesis by (simp add: ranks_before_def cx cy)
  next
    case 2
    from position_first_occurrences_order [OF 2(2)] 2(1) show ?thesis
      by (simp add: ranks_before_def cx cy)
  qed
qed

lemma head_of_ranking:
  fixes n :: nat
  assumes d: "distinct (map fst tt)"
    and k: "map fst tt = first_occurrences S"
    and p: "\<And>a. participation tt a = count_list S a"
  defines "rs \<equiv> map fst (take n (sorted_by_count_reverse tt))"
  shows "length rs = min n (length (first_occurrences S))"
    and "set rs \<subseteq> set S"
    and "sorted_wrt (ranks_before S) rs"
    and "\<And>a b. a \<in> set S \<Longrightarrow> a \<notin> set rs \<Longrightarrow> b \<in> set rs \<Longrightarrow> ranks_before S b a"
proof -
  let ?L = "sorted_by_count_reverse tt"
  have setL: "set ?L = set tt" by (simp add: sorted_by_count_reverse_def)
  have lenL: "length ?L = length tt" by (simp add: sorted_by_count_reverse_def)
  have keys: "fst ` set tt = set S"
    using k set_first_occurrences [of S] by (metis set_map)
  have "length tt = length (first_occurrences S)"
    using k by (metis length_map)
  then show "length rs = min n (length (first_occurrences S))"
    by (simp add: rs_def lenL min.commute)
  have sub: "set (take n ?L) \<subseteq> set tt"
    using set_take_subset [of n ?L] setL by simp
  then show "set rs \<subseteq> set S" using keys by (auto simp: rs_def)
  have srt: "sorted_wrt (in_rank_order tt) ?L"
    unfolding sorted_by_count_reverse_def by (rule sorted_wrt_sort_key_count [OF d])
  then have "sorted_wrt (in_rank_order tt) (take n ?L)" by (rule sorted_wrt_take)
  then have "sorted_wrt (\<lambda>x y. ranks_before S (fst x) (fst y)) (take n ?L)"
  proof (rule sorted_wrt_mono_rel [rotated])
    fix x y assume "x \<in> set (take n ?L)" "y \<in> set (take n ?L)" "in_rank_order tt x y"
    with sub show "ranks_before S (fst x) (fst y)"
      by (intro ranks_before_of_rank_order [OF d k p]) auto
  qed
  then show "sorted_wrt (ranks_before S) rs" by (simp add: rs_def sorted_wrt_map)
  fix a b assume a: "a \<in> set S" and na: "a \<notin> set rs" and b: "b \<in> set rs"
  from a keys have "a \<in> fst ` set tt" by simp
  then obtain y where y: "y \<in> set tt" "fst y = a" by (metis imageE)
  from b obtain x where x: "x \<in> set (take n ?L)" "fst x = b" by (auto simp: rs_def)
  have "set ?L = set (take n ?L) \<union> set (drop n ?L)"
    using set_append [of "take n ?L" "drop n ?L"] by simp
  moreover have "y \<notin> set (take n ?L)" using na y(2) by (auto simp: rs_def)
  ultimately have yd: "y \<in> set (drop n ?L)" using y(1) setL by auto
  have "sorted_wrt (in_rank_order tt) (take n ?L @ drop n ?L)" using srt by simp
  then have "in_rank_order tt x y" using x(1) yd by (auto simp only: sorted_wrt_append)
  moreover have "x \<in> set tt" using x(1) sub by auto
  ultimately have "ranks_before S (fst x) (fst y)"
    using y(1) by (intro ranks_before_of_rank_order [OF d k p]) auto
  then show "ranks_before S b a" by (simp add: x(2) y(2))
qed

lemma trending_addresses:
  assumes "c_get_recent_performance_samples c 5 = Inr samples" and "samples \<noteq> []"
    and "scan_slots c (map slot (take 5 samples)) [] = Inr tt"
  shows "\<exists>result. get_trending_tokens c limit = Inr result
           \<and> map tx_address result = map fst (slice_to (sorted_by_count_reverse tt) limit)"
  using assms
  by (simp add: get_trending_tokens_def except_500_def bind_exn_def case_prod_unfold comp_def)

text \<open>
  C4. For every limit from 0 on (the spec's \<open>limit\<close> is unsigned) and every scan
  whose block fetches do not raise, \<open>get_trending_tokens\<close> succeeds with the first
  \<open>limit\<close> candidates of the ranking, or all of them if there are fewer: at most
  \<open>limit\<close> tokens, all of them candidates, in descending order of participation
  count with ties in first-seen order, and every candidate left out ranks after every
  token returned.
\<close>

theorem trending_top_limit_ranked:
  assumes "0 \<le> limit"
    and "c_get_recent_performance_samples c 5 = Inr samples" and "samples \<noteq> []"
    and "list_all (block_fetched c) (map slot (take 5 samples))"
  shows "\<exists>result. get_trending_tokens c limit = Inr result
           \<and> int (length result) \<le> limit
           \<and> length result
               = min (nat limit)
                   (length (first_occurrences (sightings c (map slot (take 5 samples)))))
           \<and> set (map tx_address result) \<subseteq> set (sightings c (map slot (take 5 samples)))
           \<and> sorted_wrt (ranks_before (sightings c (map slot (take 5 samples))))
               (map tx_address result)
           \<and> (\<forall>a b. a \<in> set (sightings c (map slot (take 5 samples)))
                  \<longrightarrow> a \<notin> set (map tx_address result)
                  \<longrightarrow> b \<in> set (map tx_address result)
                  \<longrightarrow> ranks_before (sightings c (map slot (take 5 samples))) b a)"
proof -
  let ?slots = "map slot (take 5 samples)"
  let ?S = "sightings c ?slots"
  let ?tt = "foldl (sight c) [] (concat (map (block_accounts c) ?slots))"
  note sc = scan_of_sightings [OF assms(4)]
  from trending_addresses [OF assms(2,3) sc(1)] obtain result where
    r: "get_trending_tokens c limit = Inr result"
       "map tx_address result = map fst (slice_to (sorted_by_count_reverse ?tt) limit)"
    by blast
  have sl: "slice_to (sorted_by_count_reverse ?tt) limit
              = take (nat limit) (sorted_by_count_reverse ?tt)"
    using assms(1) by (simp add: slice_to_def)
  have rs: "map tx_address result = map fst (take (nat limit) (sorted_by_count_reverse ?tt))"
    using r(2) sl by simp
  note h = head_of_ranking [OF sc(4) sc(2) sc(3), where n = "nat limit"]
  have "length result = length (map tx_address result)" by simp
  also have "\<dots> = min (nat limit) (length (first_occurrences ?S))"
    unfolding rs by (rule h(1))
  finally have len: "length result = min (nat limit) (length (first_occurrences ?S))" .
  then have le: "int (length result) \<le> limit" using assms(1) by linarith
  have sub: "set (map tx_address result) \<subseteq> set ?S" unfolding rs by (rule h(2))
  have srt: "sorted_wrt (ranks_before ?S) (map tx_address result)" unfolding rs by (rule h(3))
  have top: "\<forall>a b. a \<in> set ?S \<longrightarrow> a \<notin> set (map tx_address result)
                \<longrightarrow> b \<in> set (map tx_address result) \<longrightarrow> ranks_before ?S b a"
    unfolding rs using h(4) by blast
  from r(1) le len sub srt top show ?thesis by blast
qed


lemma mint_samples_fetched:
  "c_get_recent_performance_samples mint_client 5 = Inr mint_samples"
  "mint_samples \<noteq> []"
  "list_all (block_fetched mint_client) (map slot (take 5 mint_samples))"
  by (simp_all add: mint_client_def offline_client_def mint_samples_def block_fetched_def)

theorem trending_top_limit_ranked_witness:
  "\<exists>result. get_trending_tokens mint_client 2 = Inr result
     \<and> int (length result) \<le> 2
     \<and> length result
         = min (nat 2)
             (length (first_occurrences (sightings mint_client (map slot (take 5 mint_samples)))))
     \<and> set (map tx_address result) \<subseteq> set (sightings mint_client (map slot (take 5 mint_samples)))
     \<and> sorted_wrt (ranks_before (sightings mint_client (map slot (take 5 mint_samples))))
         (map tx_address result)
     \<and> (\<forall>a b. a \<in> set (sightings mint_client (map slot (take 5 mint_samples)))
            \<longrightarrow> a \<notin> set (map tx_address result)
            \<longrightarrow> b \<in> set (map tx_address result)
            \<longrightarrow> ranks_before (sightings mint_client (map slot (take 5 mint_samples))) b a)"
proof -
  have a: "(0::int) \<le> 2" by simp
  show ?thesis by (rule trending_top_limit_ranked [OF a mint_samples_fetched])
qed

text \<open>
  On that scan: the sightings, and the tokens for the limits 2, 10 and -1. \<open>MintB\<close>,
  seen twice, comes first; \<open>MintA\<close> and \<open>MintC\<close> are seen once each and
  \<open>MintA\<close>, seen first, comes before \<open>MintC\<close>. Below 0 the slice drops from the
  end instead: with \<open>limit = -1\<close> two of the three candidates come back. The bound of
  C4 is for limits from 0 on.
\<close>

lemma mint_sightings:
  "sightings mint_client (map slot (take 5 mint_samples))
     = [''MintA'', ''MintB'', ''MintB'', ''MintC'']"
  by (simp add: sightings_def block_accounts_def visited_accounts_def has_metadata_def
      get_token_metadata_def mint_client_def offline_client_def mint_samples_def
      TOKEN_PROGRAM_ID_def)

lemma mint_scan_slots:
  "scan_slots mint_client (map slot (take 5 mint_samples)) [] = Inr mint_scan"
  by (simp add: mint_client_def offline_client_def mint_samples_def mint_scan_def
      get_token_metadata_def TOKEN_PROGRAM_ID_def record_sighting_def dict_contains_def Let_def)

lemma mint_trending_2:
  "map tx_address (projr (get_trending_tokens mint_client 2)) = [''MintB'', ''MintA'']"
  using trending_addresses [OF mint_samples_fetched(1,2) mint_scan_slots, of 2]
  by (auto simp: slice_to_def sorted_by_count_reverse_def mint_scan_def)

lemma mint_trending_10:
  "map tx_address (projr (get_trending_tokens mint_client 10)) = [''MintB'', ''MintA'', ''MintC'']"
  using trending_addresses [OF mint_samples_fetched(1,2) mint_scan_slots, of 10]
  by (auto simp: slice_to_def sorted_by_count_reverse_def mint_scan_def)

lemma mint_trending_negative_limit:
  "map tx_address (projr (get_trending_tokens mint_client (- 1))) = [''MintB'', ''MintA'']"
  using trending_addresses [OF mint_samples_fetched(1,2) mint_scan_slots, of "- 1"]
  by (auto simp: slice_to_def sorted_by_count_reverse_def mint_scan_def)


section \<open>Properties of the wallet balance\<close>

lemma dict_contains_map_of: "dict_contains d k = (map_of d k \<noteq> None)"
  by (simp add: dict_contains_def map_of_eq_None_iff)

text \<open>
  C8. A native balance of 2500000000 lamports and a token-accounts response whose
  \<open>result.value\<close> is the empty list give \<open>sol_balance\<close> 2.5, the lamports divided by
  \<open>1e9\<close>, and no tokens. (The balance is an exact rational here; 2.5 is also what
  the division of the two floats gives, both and their quotient being representable.)
\<close>

theorem balance_without_token_accounts:
  assumes "Pubkey_from_string c pk = Inr pubkey"
    and "c_get_balance c pubkey = Inr (Some 2500000000)"
    and "c_post_getTokenAccountsByOwner c pubkey = Inr (JDict d)"
    and "map_of d ''result'' = Some (JDict r)"
    and "map_of r ''value'' = Some (JList [])"
  shows "get_wallet_balance c pk = Inr \<lparr>sol_balance = 5 / 2, wb_usd_value = None, tokens = []\<rparr>"
  using assms
  by (simp add: get_wallet_balance_def except_500_def bind_exn_def dict_contains_map_of
      dict_getitem_def)

theorem balance_without_token_accounts_witness:
  "get_wallet_balance empty_accounts_client ''addr1''
     = Inr \<lparr>sol_balance = 5 / 2, wb_usd_value = None, tokens = []\<rparr>"
  using balance_without_token_accounts [of empty_accounts_client "''addr1''" "''addr1''"
      "[(''jsonrpc'', JStr ''2.0''),
        (''result'', JDict [(''context'', JDict [(''slot'', JInt 1)]), (''value'', JList [])]),
        (''id'', JInt 1)]"
      "[(''context'', JDict [(''slot'', JInt 1)]), (''value'', JList [])]"]
  by (simp add: empty_accounts_client_def offline_client_def)

text \<open>
  The loop builds \<open>TokenBalance(address=..., balance=..., usd_value=None)\<close>; the model
  has no field \<open>address\<close> and requires \<open>symbol\<close>. So no entry ever becomes a token
  balance: a malformed one is skipped, and a well-formed one raises a validation error,
  which the \<open>except (KeyError, TypeError)\<close> of the loop does not catch.
\<close>

lemma parse_token_account_never_succeeds: "parse_token_account account \<noteq> Inr tb"
  by (auto simp: parse_token_account_def bind_exn_def TokenBalance_init_def split: sum.splits)

lemma parse_well_formed:
  "parse_token_account (token_account mint ui) = Inl ValidationError"
  by (simp add: parse_token_account_def token_account_def bind_exn_def dict_getitem_def
      TokenBalance_init_def)

lemma token_accounts_loop_skips_malformed:
  "list_all (\<lambda>a. parse_token_account a = Inl KeyError \<or> parse_token_account a = Inl TypeError)
     accounts \<Longrightarrow> token_accounts_loop accounts token_balances = Inr token_balances"
  by (induction accounts) auto

lemma balance_with_malformed_account:
  "get_wallet_balance malformed_account_client ''addr1''
     = Inr \<lparr>sol_balance = 1, wb_usd_value = None, tokens = []\<rparr>"
  by (simp add: get_wallet_balance_def malformed_account_client_def offline_client_def
      except_500_def bind_exn_def dict_contains_def dict_getitem_def parse_token_account_def)

text \<open>
  C3. The claim is that an address with a defined native balance always gets that
  balance back, token accounts only ever shortening the token list. The code breaks it
  on the first well-formed token account: with a balance of one SOL and one token
  account holding 1.5 tokens, the whole request fails with status 500.
\<close>

theorem balance_fails_on_token_account:
  "get_wallet_balance one_token_client ''addr1'' = Inl (HTTPException 500 (StrOf ValidationError))"
  by (simp add: get_wallet_balance_def one_token_client_def offline_client_def except_500_def
      bind_exn_def dict_contains_def dict_getitem_def parse_well_formed)


section \<open>Properties of the provisioning flow\<close>

text \<open>
  \<open>request_airdrop\<close> makes the funds request and then fails on its \<open>await\<close>,
  whatever the request returned; so \<open>create_custom_token\<close> never succeeds and never
  gets as far as creating the mint.
\<close>

lemma request_airdrop_no_signature:
  assumes "Pubkey_from_string c address = Inr pubkey"
    and "c_request_airdrop c pubkey lamports = Inr response_value"
  shows "request_airdrop c address lamports
           = (Inl (airdrop_failed TypeError), [RequestAirdrop pubkey lamports])"
  using assms by (simp add: request_airdrop_def bind_exn_def await_response_def)

lemma request_airdrop_raises: "fst (request_airdrop c address lamports) \<noteq> Inr sg"
  by (auto simp: request_airdrop_def bind_exn_def await_response_def split: sum.splits)

lemma create_custom_token_never_mints:
  "fst (create_custom_token c from_seed seed_bytes token_data) \<noteq> Inr token
   \<and> CreateMint m d \<notin> set (snd (create_custom_token c from_seed seed_bytes token_data))"
proof -
  obtain r calls where rc: "request_airdrop c (from_seed seed_bytes) 1000000000 = (r, calls)"
    by (cases "request_airdrop c (from_seed seed_bytes) 1000000000") auto
  with request_airdrop_raises [of c "from_seed seed_bytes" 1000000000] obtain e where
    r: "r = Inl e" by (cases r) auto
  have "CreateMint m d \<notin> set calls"
    using rc by (auto simp: request_airdrop_def bind_exn_def await_response_def split: sum.splits)
  with rc r show ?thesis
    by (auto simp: create_custom_token_def Let_def split: sum.splits)
qed

text \<open>
  C5. When the funds request returns no signature, \<open>request_airdrop\<close> raises and
  \<open>create_custom_token\<close> ends with status 500, its detail the failed airdrop request
  (the code's form of the \<open>Failed\<close> state with \<open>ProvisioningFailed\<close>). The calls
  made are the balance read and the funds request, and nothing else: no confirmation,
  no wait and no mint creation.
\<close>

theorem airdrop_without_signature:
  assumes "c_get_balance c (from_seed seed_bytes) = Inr balance_before"
    and "Pubkey_from_string c (from_seed seed_bytes) = Inr pubkey"
    and "c_request_airdrop c pubkey 1000000000 = Inr None"
  shows "create_custom_token c from_seed seed_bytes token_data =
           (Inl (HTTPException 500 (StrOf (airdrop_failed TypeError))),
            [GetBalance (from_seed seed_bytes), RequestAirdrop pubkey 1000000000])"
  using assms request_airdrop_no_signature [OF assms(2,3)]
  by (simp add: create_custom_token_def Let_def)

theorem airdrop_without_signature_witness:
  "create_custom_token no_signature_client (\<lambda>bs. example_address) (replicate 32 1) example_token =
     (Inl (HTTPException 500 (StrOf (airdrop_failed TypeError))),
      [GetBalance example_address, RequestAirdrop example_address 1000000000])"
  using airdrop_without_signature
    [of no_signature_client "\<lambda>bs. example_address" "replicate 32 1" "Some 0" example_address
        example_token]
  by (simp add: no_signature_client_def offline_client_def)


section \<open>Properties of the transaction history\<close>

text \<open>
  Building the record of a transaction raises, always. So a page is returned only when
  none of the signatures has a transaction, and then it is empty; and no page is ever
  returned for a cursor.
\<close>

lemma transaction_record_raises: "transaction_record pk si tx = Inl AttributeError"
  by (simp add: transaction_record_def getattr_message_def bind_exn_def)


lemma transactions_loop_unresolved:
  "list_all (unresolved c) sigs \<Longrightarrow> transactions_loop c pk sigs acc = Inr acc"
  by (induction sigs) (simp_all add: unresolved_def)

lemma transactions_loop_resolved:
  "c_get_transaction c (signature si) = Inr (Some tx) \<Longrightarrow>
     transactions_loop c pk (si # rest) acc = Inl AttributeError"
  by (simp add: transaction_record_raises bind_exn_def)


lemma cursor_refused:
  assumes "dict_contains wallets pk" and "Pubkey_from_string c pk = Inr pubkey"
  shows "get_wallet_transactions wallets c pk limit (Some cursor)
           = Inl (HTTPException 500 (StrOf TypeError))"
  using assms
  by (simp add: get_wallet_transactions_def except_500_def bind_exn_def
      get_signatures_for_address_def)






text \<open>
  C9. The claim is that with \<open>limit=2\<close>, two resolvable transactions and one
  unresolvable signature among the first three signatures, the result has exactly two
  records. The code breaks it: with the ledger \<open>sig1\<close>, \<open>sig3\<close>, \<open>sig2\<close>, of
  which only \<open>sig2\<close> has no transaction, the RPC returns \<open>sig1\<close> and \<open>sig3\<close>,
  the record of \<open>sig1\<close> cannot be built, and the request fails with status 500.
\<close>

theorem transactions_limit_2_fails:
  "map signature ledger_132 = [''sig1'', ''sig3'', ''sig2'']
   \<and> map (unresolved (history_client ledger_132)) ledger_132 = [False, False, True]
   \<and> get_wallet_transactions wallet_store_1 (history_client ledger_132) example_address 2 None
       = Inl (HTTPException 500 (StrOf AttributeError))"
  by (simp add: get_wallet_transactions_def wallet_store_1_def dict_contains_def
      history_client_def offline_client_def ledger_132_def sig_info_def except_500_def
      bind_exn_def get_signatures_for_address_def unresolved_def transaction_record_raises)

end
